theory Spec2Isabelle
  imports Main
begin

section \<open>The JavaScript Date operations the calendar components call\<close>

text \<open>
  Both components of \<^verbatim>\<open>src/app/components/Calendar.tsx\<close> (\<^verbatim>\<open>Calendar\<close>, the
  single-hall detail view, and \<^verbatim>\<open>HallList\<close>, the multi-hall overview) read the clock
  with \<^verbatim>\<open>new Date()\<close> and do their date arithmetic on \<^verbatim>\<open>Date\<close> objects. A
  \<^verbatim>\<open>Date\<close> is modelled by its time value, an \<open>int\<close> of milliseconds since
  1970-01-01T00:00:00Z, and the operations follow the abstract operations of the
  ECMAScript specification (Day, TimeWithinDay, DayFromYear, YearFromTime, MonthFromTime,
  DateFromTime, MakeDay, MakeDate, LocalTime, UTC).

  Two things of the runtime are parameters of the model: the clock reading \<open>now\<close> (the
  value of \<^verbatim>\<open>new Date()\<close>), and the local time zone \<open>tz\<close>, a fixed offset in
  minutes east of UTC (no daylight saving change inside the dates looked at). Time values
  stay inside the range a \<^verbatim>\<open>Date\<close> can hold; the model does not clip them.
\<close>

definition msPerDay :: int where
  "msPerDay = 86400000"

definition msPerMinute :: int where
  "msPerMinute = 60000"

definition Day :: "int \<Rightarrow> int" where
  "Day t = t div msPerDay"

definition TimeWithinDay :: "int \<Rightarrow> int" where
  "TimeWithinDay t = t mod msPerDay"

definition DayFromYear :: "int \<Rightarrow> int" where
  "DayFromYear y = 365 * (y - 1970) + (y - 1969) div 4 - (y - 1901) div 100 + (y - 1601) div 400"

definition DaysInYear :: "int \<Rightarrow> int" where
  "DaysInYear y =
     (if y mod 4 \<noteq> 0 then 365 else if y mod 100 \<noteq> 0 then 366
      else if y mod 400 \<noteq> 0 then 365 else 366)"

text \<open>
  \<open>YearFromDay d\<close> is the year \<open>y\<close> with \<open>DayFromYear y \<le> d < DayFromYear (y + 1)\<close>
  (lemma \<open>YearFromDay_bounds\<close> below): an estimate from the mean length of a year, moved by
  one year where the estimate is off.
\<close>

definition yearNear :: "int \<Rightarrow> int \<Rightarrow> int" where
  "yearNear d y =
     (if d < DayFromYear y then y - 1 else if DayFromYear (y + 1) \<le> d then y + 1 else y)"

definition YearFromDay :: "int \<Rightarrow> int" where
  "YearFromDay d = yearNear d (1970 + (400 * d) div 146097)"

definition YearFromTime :: "int \<Rightarrow> int" where
  "YearFromTime t = YearFromDay (Day t)"

definition leapFlag :: "int \<Rightarrow> int" where
  "leapFlag y = (if DaysInYear y = 366 then 1 else 0)"

definition InLeapYear :: "int \<Rightarrow> int" where
  "InLeapYear t = leapFlag (YearFromTime t)"

definition DayWithinYear :: "int \<Rightarrow> int" where
  "DayWithinYear t = Day t - DayFromYear (YearFromTime t)"

text \<open>The day of the year on which month \<open>m\<close> (0 to 11) starts; \<open>l\<close> is 1 in a leap year.\<close>

definition monthStart :: "int \<Rightarrow> int \<Rightarrow> int" where
  "monthStart m l =
     (if m = 0 then 0 else if m = 1 then 31 else if m = 2 then 59 + l
      else if m = 3 then 90 + l else if m = 4 then 120 + l else if m = 5 then 151 + l
      else if m = 6 then 181 + l else if m = 7 then 212 + l else if m = 8 then 243 + l
      else if m = 9 then 273 + l else if m = 10 then 304 + l else 334 + l)"

text \<open>The month (0 to 11) of day \<open>w\<close> of a year.\<close>

definition monthOfDay :: "int \<Rightarrow> int \<Rightarrow> int" where
  "monthOfDay w l =
     (if w < 31 then 0 else if w < 59 + l then 1 else if w < 90 + l then 2
      else if w < 120 + l then 3 else if w < 151 + l then 4 else if w < 181 + l then 5
      else if w < 212 + l then 6 else if w < 243 + l then 7 else if w < 273 + l then 8
      else if w < 304 + l then 9 else if w < 334 + l then 10 else 11)"

definition MonthFromTime :: "int \<Rightarrow> int" where
  "MonthFromTime t = monthOfDay (DayWithinYear t) (InLeapYear t)"

definition DateFromTime :: "int \<Rightarrow> int" where
  "DateFromTime t = DayWithinYear t - monthStart (MonthFromTime t) (InLeapYear t) + 1"

definition MakeDay :: "int \<Rightarrow> int \<Rightarrow> int \<Rightarrow> int" where
  "MakeDay year month dt =
     DayFromYear (year + month div 12)
       + monthStart (month mod 12) (leapFlag (year + month div 12)) + dt - 1"

definition MakeDate :: "int \<Rightarrow> int \<Rightarrow> int" where
  "MakeDate day time = day * msPerDay + time"

definition LocalTime :: "int \<Rightarrow> int \<Rightarrow> int" where
  "LocalTime tz t = t + tz * msPerMinute"

definition UTC :: "int \<Rightarrow> int \<Rightarrow> int" where
  "UTC tz t = t - tz * msPerMinute"

text \<open>
  \<^verbatim>\<open>new Date(year, month, date)\<close>: local midnight of that day; a year from 0 to 99
  means 1900 + year, and a month or a day out of range carries over (month 12 is January
  of the next year, day 0 the last day of the month before).
\<close>

definition fullYear :: "int \<Rightarrow> int" where
  "fullYear year = (if 0 \<le> year \<and> year \<le> 99 then 1900 + year else year)"

definition newDate :: "int \<Rightarrow> int \<Rightarrow> int \<Rightarrow> int \<Rightarrow> int" where
  "newDate tz year month dt = UTC tz (MakeDate (MakeDay (fullYear year) month dt) 0)"

definition getDate :: "int \<Rightarrow> int \<Rightarrow> int" where
  "getDate tz t = DateFromTime (LocalTime tz t)"

definition getMonth :: "int \<Rightarrow> int \<Rightarrow> int" where
  "getMonth tz t = MonthFromTime (LocalTime tz t)"

definition getFullYear :: "int \<Rightarrow> int \<Rightarrow> int" where
  "getFullYear tz t = YearFromTime (LocalTime tz t)"

definition setDate :: "int \<Rightarrow> int \<Rightarrow> int \<Rightarrow> int" where
  "setDate tz t dt =
     UTC tz (MakeDate (MakeDay (YearFromTime (LocalTime tz t)) (MonthFromTime (LocalTime tz t)) dt)
       (TimeWithinDay (LocalTime tz t)))"

subsection \<open>toISOString and split\<close>

definition digit :: "nat \<Rightarrow> char" where
  "digit n = ''0123456789'' ! (n mod 10)"

text \<open>\<open>pad k n\<close>: the last \<open>k\<close> decimal digits of \<open>n\<close>, with leading zeros.\<close>

primrec pad :: "nat \<Rightarrow> nat \<Rightarrow> string" where
  "pad 0 n = []"
| "pad (Suc k) n = pad k (n div 10) @ [digit n]"

definition isoYear :: "int \<Rightarrow> string" where
  "isoYear y =
     (if 0 \<le> y \<and> y \<le> 9999 then pad 4 (nat y)
      else if y < 0 then CHR ''-'' # pad 6 (nat (- y))
      else CHR ''+'' # pad 6 (nat y))"

definition isoTime :: "nat \<Rightarrow> string" where
  "isoTime ms =
     pad 2 (ms div 3600000) @ '':'' @ pad 2 (ms div 60000 mod 60) @ '':''
       @ pad 2 (ms div 1000 mod 60) @ ''.'' @ pad 3 (ms mod 1000)"

text \<open>\<^verbatim>\<open>toISOString()\<close>: the UTC fields of the time value, \<^verbatim>\<open>YYYY-MM-DDTHH:mm:ss.sssZ\<close>.\<close>

definition toISOString :: "int \<Rightarrow> string" where
  "toISOString t =
     isoYear (YearFromTime t) @ ''-'' @ pad 2 (nat (MonthFromTime t + 1)) @ ''-''
       @ pad 2 (nat (DateFromTime t)) @ ''T'' @ isoTime (nat (TimeWithinDay t)) @ ''Z''"

text \<open>\<^verbatim>\<open>s.split("T")[0]\<close>: the text before the first \<^verbatim>\<open>T\<close>, all of \<open>s\<close> when it has none.\<close>

definition split_T_0 :: "string \<Rightarrow> string" where
  "split_T_0 s = takeWhile (\<lambda>c. c \<noteq> CHR ''T'') s"

section \<open>The day list of the visible month\<close>

text \<open>
  \<^verbatim>\<open>getDaysInMonth(month, year)\<close>, the same text in both components: a loop over the
  days of the month from local midnight of the 1st to local midnight of the last day,
  which keeps a day when its \<^verbatim>\<open>Date\<close> is \<^verbatim>\<open>>= new Date()\<close> and pushes the date part of
  its \<^verbatim>\<open>toISOString()\<close>. The loop variable is advanced by
  \<^verbatim>\<open>date.setDate(date.getDate() + 1)\<close>. The clock is read in every pass of the loop;
  the passes of one call are taken at one reading \<open>now\<close>. The lemma before the loop shows
  that each pass moves the loop variable on by one day, which is why the loop ends.
\<close>

lemma MonthFromTime_range: "0 \<le> MonthFromTime t \<and> MonthFromTime t \<le> 11"
  by (simp add: MonthFromTime_def monthOfDay_def)

lemma setDate_next_day: "setDate tz t (getDate tz t + 1) = t + msPerDay"
proof -
  define lt where "lt = LocalTime tz t"
  have m: "MonthFromTime lt div 12 = 0" "MonthFromTime lt mod 12 = MonthFromTime lt"
    using MonthFromTime_range [of lt] by simp_all
  have "MakeDay (YearFromTime lt) (MonthFromTime lt) (DateFromTime lt + 1) = Day lt + 1"
    by (simp add: MakeDay_def m DateFromTime_def DayWithinYear_def InLeapYear_def)
  then have "MakeDate (MakeDay (YearFromTime lt) (MonthFromTime lt) (DateFromTime lt + 1))
      (TimeWithinDay lt) = lt + msPerDay"
    by (simp add: MakeDate_def Day_def TimeWithinDay_def algebra_simps)
  then show ?thesis
    by (simp add: setDate_def getDate_def lt_def UTC_def LocalTime_def)
qed

function getDays_loop :: "int \<Rightarrow> int \<Rightarrow> int \<Rightarrow> int \<Rightarrow> string list \<Rightarrow> string list" where
  "getDays_loop tz now endDate dt days =
     (if dt \<le> endDate
      then getDays_loop tz now endDate (setDate tz dt (getDate tz dt + 1))
             (if dt \<ge> now then days @ [split_T_0 (toISOString dt)] else days)
      else days)"
  by pat_completeness auto
termination
  by (relation "measure (\<lambda>(tz, now, endDate, dt, days). nat (endDate - dt + 1))")
     (simp_all add: setDate_next_day msPerDay_def)

declare getDays_loop.simps [simp del]

definition Calendar_getDaysInMonth :: "int \<Rightarrow> int \<Rightarrow> int \<Rightarrow> int \<Rightarrow> string list" where
  "Calendar_getDaysInMonth tz now month year =
     getDays_loop tz now (newDate tz year (month + 1) 0) (newDate tz year month 1) []"

definition HallList_getDaysInMonth :: "int \<Rightarrow> int \<Rightarrow> int \<Rightarrow> int \<Rightarrow> string list" where
  "HallList_getDaysInMonth tz now month year =
     getDays_loop tz now (newDate tz year (month + 1) 0) (newDate tz year month 1) []"

section \<open>The calendar cursor\<close>

text \<open>
  The visible month is the pair of state variables \<^verbatim>\<open>currentMonth\<close>, \<^verbatim>\<open>currentYear\<close>,
  both initialised from \<^verbatim>\<open>new Date()\<close>. A handler runs against the state of the last
  render (clicks are handled one at a time, each followed by a render), so it is a
  function from the cursor to the cursor; the clock is read anew by every call and is the
  argument \<open>now\<close> (the condition of \<^verbatim>\<open>handlePrevMonth\<close> reads it twice, taken as
  one reading). The Previous and Next buttons are disabled under the condition on which
  their handler returns early.
\<close>

record cursor =
  currentMonth :: int
  currentYear :: int

definition Calendar_initialCursor :: "int \<Rightarrow> int \<Rightarrow> cursor" where
  "Calendar_initialCursor tz now =
     \<lparr>currentMonth = getMonth tz now, currentYear = getFullYear tz now\<rparr>"

definition Calendar_handlePrevMonth :: "int \<Rightarrow> int \<Rightarrow> cursor \<Rightarrow> cursor" where
  "Calendar_handlePrevMonth tz now c =
     (if currentMonth c = getMonth tz now \<and> currentYear c = getFullYear tz now then c
      else if currentMonth c = 0
        then \<lparr>currentMonth = 11, currentYear = currentYear c - 1\<rparr>
        else \<lparr>currentMonth = currentMonth c - 1, currentYear = currentYear c\<rparr>)"

definition Calendar_maxMonth :: "int \<Rightarrow> int \<Rightarrow> int" where
  "Calendar_maxMonth tz today = getMonth tz today + 36"

definition Calendar_maxYear :: "int \<Rightarrow> int \<Rightarrow> int" where
  "Calendar_maxYear tz today = getFullYear tz today + Calendar_maxMonth tz today div 12"

definition Calendar_handleNextMonth :: "int \<Rightarrow> int \<Rightarrow> cursor \<Rightarrow> cursor" where
  "Calendar_handleNextMonth tz today c =
     (if currentMonth c = Calendar_maxMonth tz today mod 12
         \<and> currentYear c = Calendar_maxYear tz today then c
      else if currentMonth c = 11
        then \<lparr>currentMonth = 0, currentYear = currentYear c + 1\<rparr>
        else \<lparr>currentMonth = currentMonth c + 1, currentYear = currentYear c\<rparr>)"

definition HallList_initialCursor :: "int \<Rightarrow> int \<Rightarrow> cursor" where
  "HallList_initialCursor tz now =
     \<lparr>currentMonth = getMonth tz now, currentYear = getFullYear tz now\<rparr>"

definition HallList_handlePrevMonth :: "int \<Rightarrow> int \<Rightarrow> cursor \<Rightarrow> cursor" where
  "HallList_handlePrevMonth tz now c =
     (if currentMonth c = getMonth tz now \<and> currentYear c = getFullYear tz now then c
      else if currentMonth c = 0
        then \<lparr>currentMonth = 11, currentYear = currentYear c - 1\<rparr>
        else \<lparr>currentMonth = currentMonth c - 1, currentYear = currentYear c\<rparr>)"

definition HallList_maxMonth :: "int \<Rightarrow> int \<Rightarrow> int" where
  "HallList_maxMonth tz today = getMonth tz today + 2"

definition HallList_maxYear :: "int \<Rightarrow> int \<Rightarrow> int" where
  "HallList_maxYear tz today = getFullYear tz today + HallList_maxMonth tz today div 12"

definition HallList_handleNextMonth :: "int \<Rightarrow> int \<Rightarrow> cursor \<Rightarrow> cursor" where
  "HallList_handleNextMonth tz today c =
     (if currentMonth c = HallList_maxMonth tz today mod 12
         \<and> currentYear c = HallList_maxYear tz today then c
      else if currentMonth c = 11
        then \<lparr>currentMonth = 0, currentYear = currentYear c + 1\<rparr>
        else \<lparr>currentMonth = currentMonth c + 1, currentYear = currentYear c\<rparr>)"

text \<open>The number of the cursor's month, counted from month 0 of year 0.\<close>

definition monthIndex :: "cursor \<Rightarrow> int" where
  "monthIndex c = 12 * currentYear c + currentMonth c"


section \<open>Availability: fetch and normalisation\<close>

text \<open>
  An item of the response of \<^verbatim>\<open>GET /api/halls/availability\<close> (the nested
  \<^verbatim>\<open>hall: {hall_id, name}\<close> flattened). \<^verbatim>\<open>reason\<close> is \<open>None\<close> when the JSON has
  \<^verbatim>\<open>null\<close> or no such field.
\<close>

record APIItem =
  item_date :: string
  item_reason :: "string option"
  is_booked :: bool
  hall_id :: int
  hall_name :: string

record APIResponse =
  statusCode :: int
  message :: string
  data :: "APIItem list"

text \<open>
  What the \<^verbatim>\<open>try\<close> block meets: \<^verbatim>\<open>fetch\<close> or \<^verbatim>\<open>response.json()\<close> throws, or a
  parsed body arrives.
\<close>

datatype fetch_result = FetchThrows | FetchResolves APIResponse

record AvailabilityData =
  date :: string
  reason :: string
  isBooked :: bool

text \<open>\<^verbatim>\<open>item.reason || "Available"\<close>: an absent or empty reason is falsy.\<close>

definition reason_or_Available :: "string option \<Rightarrow> string" where
  "reason_or_Available r =
     (case r of None \<Rightarrow> ''Available'' | Some s \<Rightarrow> if s = [] then ''Available'' else s)"

definition toAvailabilityData :: "APIItem \<Rightarrow> AvailabilityData" where
  "toAvailabilityData item =
     \<lparr>date = split_T_0 (item_date item),
      reason = reason_or_Available (item_reason item),
      isBooked = is_booked item\<rparr>"

definition Calendar_initialAvailability :: "AvailabilityData list" where
  "Calendar_initialAvailability = []"

text \<open>
  \<^verbatim>\<open>Calendar.fetchAvailability\<close>: the state after the call, from the state before and
  what the fetch met. Only the 200 branch calls \<^verbatim>\<open>setAvailabilityData\<close>; the other two
  write to the console.
\<close>

definition Calendar_fetchAvailability ::
    "int \<Rightarrow> AvailabilityData list \<Rightarrow> fetch_result \<Rightarrow> AvailabilityData list" where
  "Calendar_fetchAvailability hallId availabilityData r =
     (case r of
        FetchThrows \<Rightarrow> availabilityData
      | FetchResolves result \<Rightarrow>
          if statusCode result = 200
          then map toAvailabilityData (filter (\<lambda>item. hall_id item = hallId) (data result))
          else availabilityData)"

text \<open>
  \<^verbatim>\<open>HallList\<close> keeps one list per hall, in an object keyed by the hall id; the
  \<^verbatim>\<open>forEach\<close> appends each item to the list of its hall.
\<close>

type_synonym grouped = "int \<rightharpoonup> AvailabilityData list"

definition HallList_initialAvailability :: grouped where
  "HallList_initialAvailability = Map.empty"

definition groupItem :: "grouped \<Rightarrow> APIItem \<Rightarrow> grouped" where
  "groupItem groupedData item =
     groupedData(hall_id item \<mapsto>
       (case groupedData (hall_id item) of None \<Rightarrow> [] | Some l \<Rightarrow> l) @ [toAvailabilityData item])"

definition HallList_fetchAvailability :: "grouped \<Rightarrow> fetch_result \<Rightarrow> grouped" where
  "HallList_fetchAvailability availabilityData r =
     (case r of
        FetchThrows \<Rightarrow> availabilityData
      | FetchResolves result \<Rightarrow>
          if statusCode result = 200 then foldl groupItem Map.empty (data result)
          else availabilityData)"

section \<open>The day buttons\<close>

text \<open>
  \<^verbatim>\<open>availability?.isBooked\<close> as a condition and \<^verbatim>\<open>availability?.reason\<close> as a value,
  \<open>availability\<close> being what \<^verbatim>\<open>find\<close> returned (\<open>None\<close> for \<^verbatim>\<open>undefined\<close>).
\<close>

definition opt_isBooked :: "AvailabilityData option \<Rightarrow> bool" where
  "opt_isBooked availability = (case availability of None \<Rightarrow> False | Some a \<Rightarrow> isBooked a)"

definition opt_reason :: "AvailabilityData option \<Rightarrow> string option" where
  "opt_reason availability = (case availability of None \<Rightarrow> None | Some a \<Rightarrow> Some (reason a))"

fun starts_with :: "string \<Rightarrow> string \<Rightarrow> bool" where
  "starts_with s [] = True"
| "starts_with [] (p # ps) = False"
| "starts_with (c # cs) (p # ps) = (c = p \<and> starts_with cs ps)"

text \<open>\<^verbatim>\<open>s.includes(p)\<close>: \<open>p\<close> occurs in \<open>s\<close>.\<close>

fun str_includes :: "string \<Rightarrow> string \<Rightarrow> bool" where
  "str_includes [] p = (p = [])"
| "str_includes (c # cs) p = (starts_with (c # cs) p \<or> str_includes cs p)"

subsection \<open>Calendar (one hall)\<close>

definition Calendar_getReasonColor :: "string \<Rightarrow> string" where
  "Calendar_getReasonColor r =
     (if str_includes r ''Wedding'' then ''text-blue-600''
      else if str_includes r ''Upanayana'' then ''text-yellow-600''
      else if str_includes r ''Reception'' then ''text-red-600''
      else if str_includes r ''Available'' then ''text-green-600''
      else if str_includes r ''On hold'' then ''text-orange-600''
      else ''text-purple-600'')"

definition Calendar_availability :: "AvailabilityData list \<Rightarrow> string \<Rightarrow> AvailabilityData option" where
  "Calendar_availability availabilityData day = find (\<lambda>d. date d = day) availabilityData"

text \<open>The \<^verbatim>\<open>disabled\<close> attribute of the day button.\<close>

definition Calendar_disabled :: "AvailabilityData option \<Rightarrow> bool" where
  "Calendar_disabled availability =
     (opt_isBooked availability \<or> opt_reason availability = Some ''On hold'')"

text \<open>
  The \<^verbatim>\<open>onClick\<close> of the day button: \<open>Some (hallId, day)\<close> is the call
  \<^verbatim>\<open>onDateSelect(hallId, day)\<close>, \<open>None\<close> is no call.
\<close>

definition Calendar_onClick :: "int \<Rightarrow> AvailabilityData option \<Rightarrow> string \<Rightarrow> (int \<times> string) option" where
  "Calendar_onClick hallId availability day =
     (if \<not> opt_isBooked availability \<and> opt_reason availability \<noteq> Some ''On hold''
      then Some (hallId, day) else None)"

definition Calendar_className :: "AvailabilityData option \<Rightarrow> string" where
  "Calendar_className availability =
     (if opt_isBooked availability then ''bg-red-100 cursor-not-allowed''
      else if opt_reason availability = Some ''On hold'' then ''bg-orange-100 cursor-not-allowed''
      else ''bg-green-100 hover:bg-green-200'')"

text \<open>The label under the button: its text and its colour class, \<open>None\<close> when not rendered.\<close>

definition Calendar_label :: "AvailabilityData option \<Rightarrow> (string \<times> string) option" where
  "Calendar_label availability =
     (case availability of None \<Rightarrow> None
      | Some a \<Rightarrow> Some (reason a, Calendar_getReasonColor (reason a)))"

text \<open>
  A click of the user on the button of \<open>day\<close>: a disabled button dispatches no click,
  any other runs \<^verbatim>\<open>onClick\<close>.
\<close>

definition Calendar_click :: "int \<Rightarrow> AvailabilityData list \<Rightarrow> string \<Rightarrow> (int \<times> string) option" where
  "Calendar_click hallId availabilityData day =
     (if Calendar_disabled (Calendar_availability availabilityData day) then None
      else Calendar_onClick hallId (Calendar_availability availabilityData day) day)"

subsection \<open>HallList (all halls)\<close>

definition HallList_getReasonColor :: "string \<Rightarrow> string" where
  "HallList_getReasonColor r =
     (if str_includes r ''Wedding'' then ''text-blue-600''
      else if str_includes r ''Upanayana'' then ''text-yellow-600''
      else if str_includes r ''Reception'' then ''text-red-600''
      else if str_includes r ''Available'' then ''text-green-600''
      else ''text-purple-600'')"

definition HallList_availability :: "grouped \<Rightarrow> int \<Rightarrow> string \<Rightarrow> AvailabilityData option" where
  "HallList_availability availabilityData hid day =
     (case availabilityData hid of None \<Rightarrow> None | Some l \<Rightarrow> find (\<lambda>d. date d = day) l)"

definition HallList_disabled :: "AvailabilityData option \<Rightarrow> bool" where
  "HallList_disabled availability = opt_isBooked availability"

definition HallList_onClick :: "int \<Rightarrow> AvailabilityData option \<Rightarrow> string \<Rightarrow> (int \<times> string) option" where
  "HallList_onClick hid availability day =
     (if \<not> opt_isBooked availability then Some (hid, day) else None)"

definition HallList_className :: "AvailabilityData option \<Rightarrow> string" where
  "HallList_className availability =
     (if opt_isBooked availability then ''bg-red-100 cursor-not-allowed''
      else ''bg-green-100 hover:bg-green-200'')"

definition HallList_label :: "AvailabilityData option \<Rightarrow> (string \<times> string) option" where
  "HallList_label availability =
     (case availability of None \<Rightarrow> None
      | Some a \<Rightarrow> if isBooked a then Some (reason a, HallList_getReasonColor (reason a)) else None)"

definition HallList_click :: "grouped \<Rightarrow> int \<Rightarrow> string \<Rightarrow> (int \<times> string) option" where
  "HallList_click availabilityData hid day =
     (if HallList_disabled (HallList_availability availabilityData hid day) then None
      else HallList_onClick hid (HallList_availability availabilityData hid day) day)"

section \<open>Notions the properties are stated with\<close>

subsection \<open>Cursor positions\<close>

definition month_in_range :: "cursor \<Rightarrow> bool" where
  "month_in_range c \<longleftrightarrow> 0 \<le> currentMonth c \<and> currentMonth c \<le> 11"

definition one_month_back :: "cursor \<Rightarrow> cursor \<Rightarrow> bool" where
  "one_month_back c c' \<longleftrightarrow>
     monthIndex c' = monthIndex c - 1
     \<and> currentYear c' = (if currentMonth c = 0 then currentYear c - 1 else currentYear c)"

definition one_month_forward :: "cursor \<Rightarrow> cursor \<Rightarrow> bool" where
  "one_month_forward c c' \<longleftrightarrow>
     monthIndex c' = monthIndex c + 1
     \<and> currentYear c' = (if currentMonth c = 11 then currentYear c + 1 else currentYear c)"

inductive Calendar_reachable :: "int \<Rightarrow> cursor \<Rightarrow> bool" for tz :: int where
  Calendar_init: "Calendar_reachable tz (Calendar_initialCursor tz now)"
| Calendar_prev: "Calendar_reachable tz c \<Longrightarrow> Calendar_reachable tz (Calendar_handlePrevMonth tz now c)"
| Calendar_next: "Calendar_reachable tz c \<Longrightarrow> Calendar_reachable tz (Calendar_handleNextMonth tz now c)"

inductive HallList_reachable :: "int \<Rightarrow> cursor \<Rightarrow> bool" for tz :: int where
  HallList_init: "HallList_reachable tz (HallList_initialCursor tz now)"
| HallList_prev: "HallList_reachable tz c \<Longrightarrow> HallList_reachable tz (HallList_handlePrevMonth tz now c)"
| HallList_next: "HallList_reachable tz c \<Longrightarrow> HallList_reachable tz (HallList_handleNextMonth tz now c)"

text \<open>The navigation of section 4.1 of the specification, the horizon a parameter.\<close>

definition prevMonth_policy :: "int \<Rightarrow> int \<Rightarrow> cursor \<Rightarrow> cursor" where
  "prevMonth_policy tz today c =
     (if currentMonth c = getMonth tz today \<and> currentYear c = getFullYear tz today then c
      else if currentMonth c = 0
        then \<lparr>currentMonth = 11, currentYear = currentYear c - 1\<rparr>
        else \<lparr>currentMonth = currentMonth c - 1, currentYear = currentYear c\<rparr>)"

definition horizonCursor :: "int \<Rightarrow> int \<Rightarrow> int \<Rightarrow> cursor" where
  "horizonCursor horizonMonths tz today =
     \<lparr>currentMonth = (getMonth tz today + horizonMonths) mod 12,
      currentYear = getFullYear tz today + (getMonth tz today + horizonMonths) div 12\<rparr>"

definition nextMonth_policy :: "int \<Rightarrow> int \<Rightarrow> int \<Rightarrow> cursor \<Rightarrow> cursor" where
  "nextMonth_policy horizonMonths tz today c =
     (if c = horizonCursor horizonMonths tz today then c
      else if currentMonth c = 11
        then \<lparr>currentMonth = 0, currentYear = currentYear c + 1\<rparr>
        else \<lparr>currentMonth = currentMonth c + 1, currentYear = currentYear c\<rparr>)"

definition todayCursor :: "int \<Rightarrow> int \<Rightarrow> cursor" where
  "todayCursor tz today = \<lparr>currentMonth = getMonth tz today, currentYear = getFullYear tz today\<rparr>"









subsection \<open>The months and the dates a user can reach\<close>

text \<open>
  The months shown by pressing Next \<open>n\<close> times from a cursor, and the day lists of the
  months \<^verbatim>\<open>HallList\<close> shows from its initial month with two presses of Next, where
  Next stops (lemma \<open>HallList_next_policy\<close>).
\<close>

fun months_from :: "(cursor \<Rightarrow> cursor) \<Rightarrow> nat \<Rightarrow> cursor \<Rightarrow> cursor list" where
  "months_from nxt 0 c = [c]"
| "months_from nxt (Suc n) c = c # months_from nxt n (nxt c)"

definition HallList_offeredDates :: "int \<Rightarrow> int \<Rightarrow> string list" where
  "HallList_offeredDates tz now =
     concat (map (\<lambda>c. HallList_getDaysInMonth tz now (currentMonth c) (currentYear c))
       (months_from (HallList_handleNextMonth tz now) 2 (HallList_initialCursor tz now)))"

subsection \<open>The date part of toISOString, from the day number\<close>

definition isoDate_m :: "int \<Rightarrow> int \<Rightarrow> int \<Rightarrow> int \<Rightarrow> string" where
  "isoDate_m y w l m =
     isoYear y @ ''-'' @ pad 2 (nat (m + 1)) @ ''-'' @ pad 2 (nat (w - monthStart m l + 1))"

definition isoDate_w :: "int \<Rightarrow> int \<Rightarrow> int \<Rightarrow> string" where
  "isoDate_w y w l = isoDate_m y w l (monthOfDay w l)"

definition isoDate_y :: "int \<Rightarrow> int \<Rightarrow> string" where
  "isoDate_y d y = isoDate_w y (d - DayFromYear y) (leapFlag y)"

definition isoDate :: "int \<Rightarrow> string" where
  "isoDate d = isoDate_y d (YearFromDay d)"

subsection \<open>The state of a date\<close>

text \<open>
  The states the day button tells apart, read off its \<^verbatim>\<open>className\<close>: on
  \<^verbatim>\<open>Calendar\<close> red for a booked record, orange for the reason \<^verbatim>\<open>On hold\<close>, green
  otherwise; on \<^verbatim>\<open>HallList\<close> red for a booked record and green otherwise.
\<close>

datatype DateStatus = Available | OnHold | Booked

definition Calendar_status :: "AvailabilityData option \<Rightarrow> DateStatus" where
  "Calendar_status availability =
     (if opt_isBooked availability then Booked
      else if opt_reason availability = Some ''On hold'' then OnHold
      else Available)"

definition HallList_status :: "AvailabilityData option \<Rightarrow> DateStatus" where
  "HallList_status availability = (if opt_isBooked availability then Booked else Available)"

text \<open>
  The state a record denotes by section 6 of the specification: a booked flag that is true
  is Booked, a reason present without the booked flag is OnHold, no record is Available.
\<close>

definition spec_DateStatus :: "AvailabilityData option \<Rightarrow> DateStatus" where
  "spec_DateStatus availability =
     (case availability of
        None \<Rightarrow> Available
      | Some a \<Rightarrow> if isBooked a then Booked else if reason a \<noteq> [] then OnHold else Available)"

subsection \<open>Outcomes of a fetch, and example data\<close>

definition fetch_failed :: "fetch_result \<Rightarrow> bool" where
  "fetch_failed r =
     (case r of FetchThrows \<Rightarrow> True | FetchResolves result \<Rightarrow> statusCode result \<noteq> 200)"

definition wedding_not_booked :: APIItem where
  "wedding_not_booked =
     \<lparr>item_date = ''2025-06-10T00:00:00.000Z'', item_reason = Some ''Wedding'',
      is_booked = False, hall_id = 3, hall_name = ''Hall''\<rparr>"

text \<open>A parsed body with \<open>statusCode\<close> 200.\<close>

definition ok_response :: "APIItem list \<Rightarrow> fetch_result" where
  "ok_response items = FetchResolves \<lparr>statusCode = 200, message = ''OK'', data = items\<rparr>"

definition booked_no_reason :: APIItem where
  "booked_no_reason =
     \<lparr>item_date = ''2025-06-10T00:00:00.000Z'', item_reason = Some [],
      is_booked = True, hall_id = 3, hall_name = ''Hall''\<rparr>"

definition server_error :: fetch_result where
  "server_error = FetchResolves \<lparr>statusCode = 500, message = ''Internal Server Error'', data = []\<rparr>"

definition wedding_record :: AvailabilityData where
  "wedding_record = \<lparr>date = ''2025-06-10'', reason = ''Wedding'', isBooked = False\<rparr>"

definition on_hold_record :: AvailabilityData where
  "on_hold_record = \<lparr>date = ''2025-06-10'', reason = ''On hold'', isBooked = False\<rparr>"

section \<open>Auxiliary facts\<close>

subsection \<open>The year of a day\<close>

text \<open>
  \<open>YearFromDay\<close> meets the definition of YearFromTime in the ECMAScript specification:
  the day lies in the year it returns.
\<close>

lemma DayFromYear_linear:
  "146097 * (y - 1970) - 506 \<le> 400 * DayFromYear y"
  "400 * DayFromYear y \<le> 146097 * (y - 1970) + 589"
proof -
  define a where "a = (y - 1969) div 4"
  define b where "b = (y - 1901) div 100"
  define c where "c = (y - 1601) div 400"
  have a: "4 * a \<le> y - 1969" "y - 1969 < 4 * a + 4"
    using mult_div_mod_eq [of 4 "y - 1969"] pos_mod_sign [of 4 "y - 1969"]
      pos_mod_bound [of 4 "y - 1969"] unfolding a_def by linarith+
  have b: "100 * b \<le> y - 1901" "y - 1901 < 100 * b + 100"
    using mult_div_mod_eq [of 100 "y - 1901"] pos_mod_sign [of 100 "y - 1901"]
      pos_mod_bound [of 100 "y - 1901"] unfolding b_def by linarith+
  have c: "400 * c \<le> y - 1601" "y - 1601 < 400 * c + 400"
    using mult_div_mod_eq [of 400 "y - 1601"] pos_mod_sign [of 400 "y - 1601"]
      pos_mod_bound [of 400 "y - 1601"] unfolding c_def by linarith+
  have d: "DayFromYear y = 365 * (y - 1970) + a - b + c"
    by (simp add: DayFromYear_def a_def b_def c_def)
  show "146097 * (y - 1970) - 506 \<le> 400 * DayFromYear y"
    unfolding d using a b c by (simp add: algebra_simps)
  show "400 * DayFromYear y \<le> 146097 * (y - 1970) + 589"
    unfolding d using a b c by (simp add: algebra_simps)
qed

lemma YearFromDay_bounds:
  "DayFromYear (YearFromDay d) \<le> d \<and> d < DayFromYear (YearFromDay d + 1)"
proof -
  define y where "y = 1970 + (400 * d) div 146097"
  have e: "146097 * (y - 1970) \<le> 400 * d" "400 * d < 146097 * (y - 1970) + 146097"
    unfolding y_def by simp_all
  have lo: "DayFromYear (y - 1) \<le> d"
    using e DayFromYear_linear(2) [of "y - 1"] by (simp add: algebra_simps)
  have hi: "d < DayFromYear (y + 2)"
    using e DayFromYear_linear(1) [of "y + 2"] by (simp add: algebra_simps)
  have two: "y + 1 + 1 = y + 2" by simp
  show ?thesis
    unfolding YearFromDay_def yearNear_def y_def [symmetric]
    using lo hi by (auto simp: two)
qed

subsection \<open>The loop as a list of days\<close>

text \<open>
  The loop of \<^verbatim>\<open>getDaysInMonth\<close> visits the local midnights of the days \<open>k\<close> from the
  first to the last of the month, keeps those not before the clock, and writes each as the
  UTC date of that midnight. A local midnight is not before the clock exactly when its day
  is after the local day of the clock, or the clock stands at local midnight itself.
\<close>

lemma pad_numeral: "pad (numeral k) n = pad (pred_numeral k) (n div 10) @ [digit n]"
proof -
  have h: "numeral k = Suc (pred_numeral k)"
    by (rule numeral_eq_Suc)
  show ?thesis
    by (simp only: h pad.simps)
qed

lemma getDays_loop_unroll:
  "getDays_loop tz now endDate dt days =
     (if dt \<le> endDate
      then getDays_loop tz now endDate (dt + msPerDay)
             (if now \<le> dt then days @ [split_T_0 (toISOString dt)] else days)
      else days)"
  by (subst getDays_loop.simps) (simp add: setDate_next_day)

lemma digit_not_T: "digit n \<noteq> CHR ''T''"
proof -
  have "n mod 10 = 0 \<or> n mod 10 = 1 \<or> n mod 10 = 2 \<or> n mod 10 = 3 \<or> n mod 10 = 4
      \<or> n mod 10 = 5 \<or> n mod 10 = 6 \<or> n mod 10 = 7 \<or> n mod 10 = 8 \<or> n mod 10 = 9"
    by presburger
  then show ?thesis
    unfolding digit_def by (elim disjE) simp_all
qed

lemma pad_no_T: "CHR ''T'' \<notin> set (pad k n)"
  by (induction k arbitrary: n) (simp_all add: digit_not_T [symmetric])

lemma isoYear_no_T: "CHR ''T'' \<notin> set (isoYear y)"
  by (simp add: isoYear_def pad_no_T)

lemma takeWhile_stop: "x \<notin> set xs \<Longrightarrow> takeWhile (\<lambda>c. c \<noteq> x) (xs @ x # ys) = xs"
  by (induction xs) auto

lemma split_toISOString: "split_T_0 (toISOString t) = isoDate (Day t)"
proof -
  let ?ymd = "isoYear (YearFromTime t) @ ''-'' @ pad 2 (nat (MonthFromTime t + 1)) @ ''-''
       @ pad 2 (nat (DateFromTime t))"
  have noT: "CHR ''T'' \<notin> set ?ymd"
    by (simp add: isoYear_no_T pad_no_T)
  have "toISOString t = ?ymd @ CHR ''T'' # (isoTime (nat (TimeWithinDay t)) @ ''Z'')"
    by (simp add: toISOString_def)
  then have "split_T_0 (toISOString t) = ?ymd"
    unfolding split_T_0_def using takeWhile_stop [OF noT] by simp
  also have "\<dots> = isoDate (Day t)"
    by (simp add: isoDate_def isoDate_y_def isoDate_w_def isoDate_m_def YearFromTime_def
        MonthFromTime_def DateFromTime_def DayWithinYear_def InLeapYear_def)
  finally show ?thesis .
qed

lemma UTC_next: "UTC tz (k * msPerDay) + msPerDay = UTC tz ((k + 1) * msPerDay)"
  by (simp add: UTC_def algebra_simps)

lemma UTC_le: "UTC tz (s * msPerDay) \<le> UTC tz (e * msPerDay) \<longleftrightarrow> s \<le> e"
  by (simp add: UTC_def msPerDay_def)

lemma Day_UTC_midnight: "Day (UTC tz (k * msPerDay)) = k + (- (tz * msPerMinute)) div msPerDay"
  by (simp add: Day_def UTC_def msPerDay_def)

lemma getDays_loop_upto:
  "getDays_loop tz now (UTC tz (e * msPerDay)) (UTC tz (s * msPerDay)) days =
     days @ map (\<lambda>k. isoDate (k + (- (tz * msPerMinute)) div msPerDay))
              (filter (\<lambda>k. now \<le> UTC tz (k * msPerDay)) [s..e])"
proof (induction "nat (e - s + 1)" arbitrary: s days)
  case 0
  then have "\<not> s \<le> e" by simp
  then show ?case
    by (subst getDays_loop_unroll) (simp add: UTC_le)
next
  case (Suc n)
  then have le: "s \<le> e" and n: "n = nat (e - (s + 1) + 1)" by simp_all
  show ?case
    by (subst getDays_loop_unroll)
       (simp add: UTC_le le UTC_next Suc.hyps(1) [OF n] upto_rec1 [OF le]
          split_toISOString Day_UTC_midnight)
qed

lemma now_le_midnight:
  "now \<le> UTC tz (k * msPerDay) \<longleftrightarrow>
     Day (LocalTime tz now) + (if TimeWithinDay (LocalTime tz now) = 0 then 0 else 1) \<le> k"
proof -
  define lt where "lt = LocalTime tz now"
  have a: "now \<le> UTC tz (k * msPerDay) \<longleftrightarrow> lt \<le> k * msPerDay"
    by (simp add: lt_def LocalTime_def UTC_def algebra_simps)
  have b: "lt = Day lt * msPerDay + TimeWithinDay lt"
    by (simp add: Day_def TimeWithinDay_def)
  have c: "0 \<le> TimeWithinDay lt" "TimeWithinDay lt < msPerDay"
    by (simp_all add: TimeWithinDay_def msPerDay_def)
  have d: "lt \<le> k * msPerDay \<longleftrightarrow>
      Day lt + (if TimeWithinDay lt = 0 then 0 else 1) \<le> k"
  proof (cases "TimeWithinDay lt = 0")
    case True
    then have "lt = Day lt * msPerDay" using b by simp
    then have "lt \<le> k * msPerDay \<longleftrightarrow> Day lt * msPerDay \<le> k * msPerDay" by simp
    then show ?thesis using True by (simp add: msPerDay_def)
  next
    case False
    have "lt \<le> k * msPerDay \<longleftrightarrow> Day lt + 1 \<le> k"
    proof
      assume "lt \<le> k * msPerDay"
      then have "Day lt * msPerDay < k * msPerDay" using b c False by linarith
      then have "Day lt < k" by (simp add: msPerDay_def)
      then show "Day lt + 1 \<le> k" by simp
    next
      assume "Day lt + 1 \<le> k"
      then have "(Day lt + 1) * msPerDay \<le> k * msPerDay" by (simp add: msPerDay_def)
      then show "lt \<le> k * msPerDay" using b c by (simp add: algebra_simps)
    qed
    then show ?thesis using False by simp
  qed
  show ?thesis using a d by (simp add: lt_def)
qed

lemma getDaysInMonth_upto:
  "getDays_loop tz now (newDate tz year (month + 1) 0) (newDate tz year month 1) [] =
     map (\<lambda>k. isoDate (k + (- (tz * msPerMinute)) div msPerDay))
       (filter (\<lambda>k. Day (LocalTime tz now)
            + (if TimeWithinDay (LocalTime tz now) = 0 then 0 else 1) \<le> k)
          [MakeDay (fullYear year) month 1 .. MakeDay (fullYear year) (month + 1) 0])"
  by (simp add: newDate_def MakeDate_def getDays_loop_upto now_le_midnight)

lemma Calendar_getDaysInMonth_upto:
  "Calendar_getDaysInMonth tz now month year =
     map (\<lambda>k. isoDate (k + (- (tz * msPerMinute)) div msPerDay))
       (filter (\<lambda>k. Day (LocalTime tz now)
            + (if TimeWithinDay (LocalTime tz now) = 0 then 0 else 1) \<le> k)
          [MakeDay (fullYear year) month 1 .. MakeDay (fullYear year) (month + 1) 0])"
  by (simp add: Calendar_getDaysInMonth_def getDaysInMonth_upto)

lemma HallList_getDaysInMonth_upto:
  "HallList_getDaysInMonth tz now month year =
     map (\<lambda>k. isoDate (k + (- (tz * msPerMinute)) div msPerDay))
       (filter (\<lambda>k. Day (LocalTime tz now)
            + (if TimeWithinDay (LocalTime tz now) = 0 then 0 else 1) \<le> k)
          [MakeDay (fullYear year) month 1 .. MakeDay (fullYear year) (month + 1) 0])"
  by (simp add: HallList_getDaysInMonth_def getDaysInMonth_upto)

subsection \<open>Evaluation at concrete clocks\<close>

text \<open>
  The clocks used below: 1736942400000 is 2025-01-15T12:00:00Z, 1737361800000 is
  2025-01-20T08:30:00Z, 1738324800000 is 2025-01-31T12:00:00Z, 1738411200000 is
  2025-02-01T12:00:00Z and 1765800000000 is 2025-12-15T12:00:00Z. The time zone 0 is UTC
  and 330 is UTC+05:30.
\<close>

lemmas date_eval = msPerDay_def msPerMinute_def Day_def TimeWithinDay_def DayFromYear_def
  DaysInYear_def yearNear_def YearFromDay_def YearFromTime_def leapFlag_def InLeapYear_def
  DayWithinYear_def monthStart_def monthOfDay_def MonthFromTime_def DateFromTime_def MakeDay_def
  LocalTime_def fullYear_def getDate_def getMonth_def getFullYear_def

lemmas iso_eval = isoDate_def isoDate_y_def isoDate_w_def isoDate_m_def isoYear_def pad_numeral
  digit_def

lemma clock_2025_01_15: "getMonth 0 1736942400000 = 0" "getFullYear 0 1736942400000 = 2025"
  by (simp_all add: date_eval)




lemma clock_2025_12_15: "getMonth 0 1765800000000 = 11" "getFullYear 0 1765800000000 = 2025"
  by (simp_all add: date_eval)

lemma clock_ist_2025_01_15: "getMonth 330 1736942400000 = 0" "getFullYear 330 1736942400000 = 2025"
  by (simp_all add: date_eval)

lemma Calendar_utc_jan:
  "Calendar_getDaysInMonth 0 1736942400000 0 2025 =
    [''2025-01-16'', ''2025-01-17'', ''2025-01-18'', ''2025-01-19'', ''2025-01-20'',
     ''2025-01-21'', ''2025-01-22'', ''2025-01-23'', ''2025-01-24'', ''2025-01-25'',
     ''2025-01-26'', ''2025-01-27'', ''2025-01-28'', ''2025-01-29'', ''2025-01-30'',
     ''2025-01-31'']"
  by (simp add: Calendar_getDaysInMonth_upto date_eval) (simp add: iso_eval date_eval)

lemma HallList_utc_jan:
  "HallList_getDaysInMonth 0 1736942400000 0 2025 =
    [''2025-01-16'', ''2025-01-17'', ''2025-01-18'', ''2025-01-19'', ''2025-01-20'',
     ''2025-01-21'', ''2025-01-22'', ''2025-01-23'', ''2025-01-24'', ''2025-01-25'',
     ''2025-01-26'', ''2025-01-27'', ''2025-01-28'', ''2025-01-29'', ''2025-01-30'',
     ''2025-01-31'']"
  by (simp add: HallList_getDaysInMonth_upto date_eval) (simp add: iso_eval date_eval)

lemma HallList_utc_feb:
  "HallList_getDaysInMonth 0 1736942400000 1 2025 =
    [''2025-02-01'', ''2025-02-02'', ''2025-02-03'', ''2025-02-04'', ''2025-02-05'',
     ''2025-02-06'', ''2025-02-07'', ''2025-02-08'', ''2025-02-09'', ''2025-02-10'',
     ''2025-02-11'', ''2025-02-12'', ''2025-02-13'', ''2025-02-14'', ''2025-02-15'',
     ''2025-02-16'', ''2025-02-17'', ''2025-02-18'', ''2025-02-19'', ''2025-02-20'',
     ''2025-02-21'', ''2025-02-22'', ''2025-02-23'', ''2025-02-24'', ''2025-02-25'',
     ''2025-02-26'', ''2025-02-27'', ''2025-02-28'']"
  by (simp add: HallList_getDaysInMonth_upto date_eval) (simp add: iso_eval date_eval)

lemma HallList_utc_mar:
  "HallList_getDaysInMonth 0 1736942400000 2 2025 =
    [''2025-03-01'', ''2025-03-02'', ''2025-03-03'', ''2025-03-04'', ''2025-03-05'',
     ''2025-03-06'', ''2025-03-07'', ''2025-03-08'', ''2025-03-09'', ''2025-03-10'',
     ''2025-03-11'', ''2025-03-12'', ''2025-03-13'', ''2025-03-14'', ''2025-03-15'',
     ''2025-03-16'', ''2025-03-17'', ''2025-03-18'', ''2025-03-19'', ''2025-03-20'',
     ''2025-03-21'', ''2025-03-22'', ''2025-03-23'', ''2025-03-24'', ''2025-03-25'',
     ''2025-03-26'', ''2025-03-27'', ''2025-03-28'', ''2025-03-29'', ''2025-03-30'',
     ''2025-03-31'']"
  by (simp add: HallList_getDaysInMonth_upto date_eval) (simp add: iso_eval date_eval)

lemma HallList_ist_jan:
  "HallList_getDaysInMonth 330 1736942400000 0 2025 =
    [''2025-01-15'', ''2025-01-16'', ''2025-01-17'', ''2025-01-18'', ''2025-01-19'',
     ''2025-01-20'', ''2025-01-21'', ''2025-01-22'', ''2025-01-23'', ''2025-01-24'',
     ''2025-01-25'', ''2025-01-26'', ''2025-01-27'', ''2025-01-28'', ''2025-01-29'',
     ''2025-01-30'']"
  by (simp add: HallList_getDaysInMonth_upto date_eval) (simp add: iso_eval date_eval)

lemma HallList_ist_feb:
  "HallList_getDaysInMonth 330 1736942400000 1 2025 =
    [''2025-01-31'', ''2025-02-01'', ''2025-02-02'', ''2025-02-03'', ''2025-02-04'',
     ''2025-02-05'', ''2025-02-06'', ''2025-02-07'', ''2025-02-08'', ''2025-02-09'',
     ''2025-02-10'', ''2025-02-11'', ''2025-02-12'', ''2025-02-13'', ''2025-02-14'',
     ''2025-02-15'', ''2025-02-16'', ''2025-02-17'', ''2025-02-18'', ''2025-02-19'',
     ''2025-02-20'', ''2025-02-21'', ''2025-02-22'', ''2025-02-23'', ''2025-02-24'',
     ''2025-02-25'', ''2025-02-26'', ''2025-02-27'']"
  by (simp add: HallList_getDaysInMonth_upto date_eval) (simp add: iso_eval date_eval)

lemma HallList_ist_mar:
  "HallList_getDaysInMonth 330 1736942400000 2 2025 =
    [''2025-02-28'', ''2025-03-01'', ''2025-03-02'', ''2025-03-03'', ''2025-03-04'',
     ''2025-03-05'', ''2025-03-06'', ''2025-03-07'', ''2025-03-08'', ''2025-03-09'',
     ''2025-03-10'', ''2025-03-11'', ''2025-03-12'', ''2025-03-13'', ''2025-03-14'',
     ''2025-03-15'', ''2025-03-16'', ''2025-03-17'', ''2025-03-18'', ''2025-03-19'',
     ''2025-03-20'', ''2025-03-21'', ''2025-03-22'', ''2025-03-23'', ''2025-03-24'',
     ''2025-03-25'', ''2025-03-26'', ''2025-03-27'', ''2025-03-28'', ''2025-03-29'',
     ''2025-03-30'']"
  by (simp add: HallList_getDaysInMonth_upto date_eval) (simp add: iso_eval date_eval)

subsection \<open>Cursor navigation\<close>

lemma getMonth_range: "0 \<le> getMonth tz now \<and> getMonth tz now \<le> 11"
  by (simp add: getMonth_def MonthFromTime_range)

lemma cursor_eq_iff:
  "(c :: cursor) = c' \<longleftrightarrow> currentMonth c = currentMonth c' \<and> currentYear c = currentYear c'"
  by (cases c, cases c') simp


lemma todayCursor_range: "month_in_range (todayCursor tz today)"
  using getMonth_range [of tz today] by (simp add: month_in_range_def todayCursor_def)



lemma Calendar_prev_policy: "Calendar_handlePrevMonth tz now c = prevMonth_policy tz now c"
  by (simp add: Calendar_handlePrevMonth_def prevMonth_policy_def)

lemma HallList_prev_policy: "HallList_handlePrevMonth tz now c = prevMonth_policy tz now c"
  by (simp add: HallList_handlePrevMonth_def prevMonth_policy_def)

lemma Calendar_next_policy: "Calendar_handleNextMonth tz now c = nextMonth_policy 36 tz now c"
  by (simp add: Calendar_handleNextMonth_def nextMonth_policy_def horizonCursor_def
      Calendar_maxMonth_def Calendar_maxYear_def cursor_eq_iff)

lemma HallList_next_policy: "HallList_handleNextMonth tz now c = nextMonth_policy 2 tz now c"
  by (simp add: HallList_handleNextMonth_def nextMonth_policy_def horizonCursor_def
      HallList_maxMonth_def HallList_maxYear_def cursor_eq_iff)

lemma prev_policy_cases:
  assumes "month_in_range c"
  shows "month_in_range (prevMonth_policy tz now c)
    \<and> (prevMonth_policy tz now c = c \<and> c = todayCursor tz now
        \<or> c \<noteq> todayCursor tz now \<and> one_month_back c (prevMonth_policy tz now c))"
  using assms
  by (auto simp: prevMonth_policy_def month_in_range_def one_month_back_def monthIndex_def
      todayCursor_def cursor_eq_iff)

lemma next_policy_cases:
  assumes "month_in_range c"
  shows "month_in_range (nextMonth_policy h tz now c)
    \<and> (nextMonth_policy h tz now c = c \<and> c = horizonCursor h tz now
        \<or> c \<noteq> horizonCursor h tz now \<and> one_month_forward c (nextMonth_policy h tz now c))"
  using assms
  by (auto simp: nextMonth_policy_def month_in_range_def one_month_forward_def monthIndex_def)

lemma Calendar_reachable_range: "Calendar_reachable tz c \<Longrightarrow> month_in_range c"
proof (induction rule: Calendar_reachable.induct)
  case (Calendar_init now)
  then show ?case
    using todayCursor_range [of tz now] by (simp add: Calendar_initialCursor_def todayCursor_def)
next
  case (Calendar_prev c now)
  then show ?case
    using prev_policy_cases [of c tz now] by (simp add: Calendar_prev_policy)
next
  case (Calendar_next c now)
  then show ?case
    using next_policy_cases [of c 36 tz now] by (simp add: Calendar_next_policy)
qed

lemma HallList_reachable_range: "HallList_reachable tz c \<Longrightarrow> month_in_range c"
proof (induction rule: HallList_reachable.induct)
  case (HallList_init now)
  then show ?case
    using todayCursor_range [of tz now] by (simp add: HallList_initialCursor_def todayCursor_def)
next
  case (HallList_prev c now)
  then show ?case
    using prev_policy_cases [of c tz now] by (simp add: HallList_prev_policy)
next
  case (HallList_next c now)
  then show ?case
    using next_policy_cases [of c 2 tz now] by (simp add: HallList_next_policy)
qed











lemma HallList_months_utc:
  "months_from (HallList_handleNextMonth 0 1736942400000) 2 (HallList_initialCursor 0 1736942400000)
     = [\<lparr>currentMonth = 0, currentYear = 2025\<rparr>, \<lparr>currentMonth = 1, currentYear = 2025\<rparr>,
        \<lparr>currentMonth = 2, currentYear = 2025\<rparr>]"
  by (simp add: numeral_2_eq_2 HallList_initialCursor_def HallList_handleNextMonth_def
      HallList_maxMonth_def HallList_maxYear_def clock_2025_01_15)

lemma HallList_months_ist:
  "months_from (HallList_handleNextMonth 330 1736942400000) 2
       (HallList_initialCursor 330 1736942400000)
     = [\<lparr>currentMonth = 0, currentYear = 2025\<rparr>, \<lparr>currentMonth = 1, currentYear = 2025\<rparr>,
        \<lparr>currentMonth = 2, currentYear = 2025\<rparr>]"
  by (simp add: numeral_2_eq_2 HallList_initialCursor_def HallList_handleNextMonth_def
      HallList_maxMonth_def HallList_maxYear_def clock_ist_2025_01_15)

subsection \<open>Records, fetches and clicks\<close>

lemma find_no_match: "(\<forall>a \<in> set xs. \<not> P a) \<Longrightarrow> find P xs = None"
  by (induction xs) auto

lemma find_first_match:
  "(\<forall>a \<in> set pre. \<not> P a) \<Longrightarrow> P x \<Longrightarrow> find P (pre @ x # post) = Some x"
  by (induction pre) auto

lemma find_replace:
  "P a = P b \<Longrightarrow>
   find P (pre @ a # post) = find P (pre @ b # post)
   \<or> find P (pre @ a # post) = Some a \<and> find P (pre @ b # post) = Some b"
  by (induction pre) auto

lemma Calendar_click_Some:
  "Calendar_availability availabilityData day = Some a \<Longrightarrow>
   Calendar_click hallId availabilityData day =
     (if isBooked a \<or> reason a = ''On hold'' then None else Some (hallId, day))"
  by (simp add: Calendar_click_def Calendar_disabled_def Calendar_onClick_def opt_isBooked_def
      opt_reason_def)

lemma Calendar_click_None:
  "Calendar_availability availabilityData day = None \<Longrightarrow>
   Calendar_click hallId availabilityData day = Some (hallId, day)"
  by (simp add: Calendar_click_def Calendar_disabled_def Calendar_onClick_def opt_isBooked_def
      opt_reason_def)

lemma HallList_click_Some:
  "HallList_availability g hid day = Some a \<Longrightarrow>
   HallList_click g hid day = (if isBooked a then None else Some (hid, day))"
  by (simp add: HallList_click_def HallList_disabled_def HallList_onClick_def opt_isBooked_def)

lemma HallList_click_None:
  "HallList_availability g hid day = None \<Longrightarrow> HallList_click g hid day = Some (hid, day)"
  by (simp add: HallList_click_def HallList_disabled_def HallList_onClick_def opt_isBooked_def)

lemma foldl_groupItem:
  "foldl groupItem g items hid =
     (if filter (\<lambda>i. hall_id i = hid) items = [] then g hid
      else Some ((case g hid of None \<Rightarrow> [] | Some l \<Rightarrow> l)
             @ map toAvailabilityData (filter (\<lambda>i. hall_id i = hid) items)))"
proof (induction items arbitrary: g)
  case Nil
  then show ?case by simp
next
  case (Cons i items)
  let ?f = "filter (\<lambda>i. hall_id i = hid) items"
  have "foldl groupItem g (i # items) hid = foldl groupItem (groupItem g i) items hid"
    by simp
  also have "\<dots> = (if ?f = [] then groupItem g i hid
      else Some ((case groupItem g i hid of None \<Rightarrow> [] | Some l \<Rightarrow> l)
             @ map toAvailabilityData ?f))"
    by (rule Cons.IH)
  also have "\<dots> = (if filter (\<lambda>i. hall_id i = hid) (i # items) = [] then g hid
      else Some ((case g hid of None \<Rightarrow> [] | Some l \<Rightarrow> l)
             @ map toAvailabilityData (filter (\<lambda>i. hall_id i = hid) (i # items))))"
    by (auto simp: groupItem_def split: option.splits)
  finally show ?case .
qed

lemma HallList_fetch_ok:
  "HallList_fetchAvailability g (ok_response items) hid =
     (if filter (\<lambda>i. hall_id i = hid) items = [] then None
      else Some (map toAvailabilityData (filter (\<lambda>i. hall_id i = hid) items)))"
  by (simp add: HallList_fetchAvailability_def ok_response_def foldl_groupItem)

lemma Calendar_fetch_ok:
  "Calendar_fetchAvailability hallId old (ok_response items) =
     map toAvailabilityData (filter (\<lambda>i. hall_id i = hallId) items)"
  by (simp add: Calendar_fetchAvailability_def ok_response_def)

lemma getReasonColor_Available:
  "Calendar_getReasonColor ''Available'' = ''text-green-600''"
  "HallList_getReasonColor ''Available'' = ''text-green-600''"
  by (simp_all add: Calendar_getReasonColor_def HallList_getReasonColor_def)

section \<open>Properties\<close>

text \<open>
  Neither component writes to the repository: the only effect of a click on a day is the
  call \<^verbatim>\<open>onDateSelect(hallId, day)\<close>, and the hold and booking operations of the
  specification are behind that callback, outside these components.
\<close>

subsection \<open>Selection of a day\<close>

text \<open>
  Claim C2, as the code has it. On both surfaces a day whose availability record (the first
  record of the hall with that date) has \<open>isBooked\<close> true cannot be selected: the button
  is disabled and a click calls \<^verbatim>\<open>onDateSelect\<close> not at all. On \<^verbatim>\<open>Calendar\<close> the
  same holds for a record whose reason is the text \<^verbatim>\<open>On hold\<close>. A record that is
  not booked and has any other reason is selectable on both surfaces: the button is enabled
  and a click calls \<^verbatim>\<open>onDateSelect\<close> with the hall and the day.
\<close>

theorem day_selection_guards:
  "(Calendar_availability availabilityData day = Some a \<and> (isBooked a \<or> reason a = ''On hold'')
      \<longrightarrow> Calendar_disabled (Some a) \<and> Calendar_onClick hallId (Some a) day = None
          \<and> Calendar_click hallId availabilityData day = None)
   \<and> (HallList_availability g hid day = Some b \<and> isBooked b
      \<longrightarrow> HallList_disabled (Some b) \<and> HallList_onClick hid (Some b) day = None
          \<and> HallList_click g hid day = None)
   \<and> (Calendar_availability availabilityData day = Some a \<and> \<not> isBooked a
        \<and> reason a \<noteq> ''On hold''
      \<longrightarrow> \<not> Calendar_disabled (Some a)
          \<and> Calendar_onClick hallId (Some a) day = Some (hallId, day)
          \<and> Calendar_click hallId availabilityData day = Some (hallId, day))
   \<and> (HallList_availability g hid day = Some b \<and> \<not> isBooked b \<and> reason b \<noteq> ''On hold''
      \<longrightarrow> \<not> HallList_disabled (Some b)
          \<and> HallList_onClick hid (Some b) day = Some (hid, day)
          \<and> HallList_click g hid day = Some (hid, day))"
  by (auto simp: Calendar_click_Some HallList_click_Some Calendar_disabled_def
      Calendar_onClick_def HallList_disabled_def HallList_onClick_def opt_isBooked_def
      opt_reason_def)

theorem day_selection_guards_witness:
  "Calendar_click 3 [on_hold_record] ''2025-06-10'' = None
   \<and> HallList_click [3 \<mapsto> [\<lparr>date = ''2025-06-10'', reason = ''Wedding'', isBooked = True\<rparr>]]
        3 ''2025-06-10'' = None
   \<and> Calendar_click 3 [wedding_record] ''2025-06-10'' = Some (3, ''2025-06-10'')
   \<and> HallList_click [3 \<mapsto> [wedding_record]] 3 ''2025-06-10'' = Some (3, ''2025-06-10'')"
proof -
  have r: "date on_hold_record = ''2025-06-10''" "reason on_hold_record = ''On hold''"
    "\<not> isBooked on_hold_record" "date wedding_record = ''2025-06-10''"
    "reason wedding_record = ''Wedding''" "\<not> isBooked wedding_record"
    by (simp_all add: on_hold_record_def wedding_record_def)
  from day_selection_guards
    [where availabilityData = "[on_hold_record]" and day = "''2025-06-10''"
       and a = on_hold_record and hallId = 3 and hid = 3
       and g = "[3 \<mapsto> [\<lparr>date = ''2025-06-10'', reason = ''Wedding'', isBooked = True\<rparr>]]"
       and b = "\<lparr>date = ''2025-06-10'', reason = ''Wedding'', isBooked = True\<rparr>"]
    day_selection_guards
    [where availabilityData = "[wedding_record]" and day = "''2025-06-10''"
       and a = wedding_record and hallId = 3 and hid = 3
       and g = "[3 \<mapsto> [wedding_record]]" and b = wedding_record]
  show ?thesis
    by (simp add: Calendar_availability_def HallList_availability_def r)
qed

text \<open>
  Claim C2 as written fails: a record with a reason and \<open>is_booked\<close> false (the On-Hold
  state of the claim), here the reason \<^verbatim>\<open>Wedding\<close>, is selected on both surfaces.
\<close>

theorem held_date_selected_counterexample:
  "Calendar_click 3
     (Calendar_fetchAvailability 3 Calendar_initialAvailability (ok_response [wedding_not_booked]))
     ''2025-06-10'' = Some (3, ''2025-06-10'')
   \<and> HallList_click
     (HallList_fetchAvailability HallList_initialAvailability (ok_response [wedding_not_booked]))
     3 ''2025-06-10'' = Some (3, ''2025-06-10'')"
  by (simp add: Calendar_click_def Calendar_disabled_def Calendar_onClick_def opt_isBooked_def
      opt_reason_def Calendar_availability_def Calendar_fetchAvailability_def ok_response_def
      wedding_not_booked_def toAvailabilityData_def reason_or_Available_def split_T_0_def
      HallList_click_def HallList_disabled_def HallList_onClick_def HallList_availability_def
      HallList_fetchAvailability_def groupItem_def)

text \<open>
  Claim C6. A day for which the hall's availability state holds no record is Available:
  on both surfaces the button is enabled, has the green class, and a click calls
  \<^verbatim>\<open>onDateSelect\<close> with the hall and the day.
\<close>

theorem date_without_record_is_available:
  "((\<forall>a \<in> set availabilityData. date a \<noteq> day)
      \<longrightarrow> Calendar_availability availabilityData day = None
          \<and> Calendar_status (Calendar_availability availabilityData day) = Available
          \<and> \<not> Calendar_disabled (Calendar_availability availabilityData day)
          \<and> Calendar_className (Calendar_availability availabilityData day)
              = ''bg-green-100 hover:bg-green-200''
          \<and> Calendar_click hallId availabilityData day = Some (hallId, day))
   \<and> ((\<forall>l. g hid = Some l \<longrightarrow> (\<forall>a \<in> set l. date a \<noteq> day))
      \<longrightarrow> HallList_availability g hid day = None
          \<and> HallList_status (HallList_availability g hid day) = Available
          \<and> \<not> HallList_disabled (HallList_availability g hid day)
          \<and> HallList_className (HallList_availability g hid day)
              = ''bg-green-100 hover:bg-green-200''
          \<and> HallList_click g hid day = Some (hid, day))"
proof (intro conjI impI)
  assume h: "\<forall>a \<in> set availabilityData. date a \<noteq> day"
  then show a: "Calendar_availability availabilityData day = None"
    by (simp add: Calendar_availability_def find_no_match)
  then show "Calendar_status (Calendar_availability availabilityData day) = Available"
    by (simp add: Calendar_status_def opt_isBooked_def opt_reason_def)
  from a show "\<not> Calendar_disabled (Calendar_availability availabilityData day)"
    by (simp add: Calendar_disabled_def opt_isBooked_def opt_reason_def)
  from a show "Calendar_className (Calendar_availability availabilityData day)
              = ''bg-green-100 hover:bg-green-200''"
    by (simp add: Calendar_className_def opt_isBooked_def opt_reason_def)
  from a show "Calendar_click hallId availabilityData day = Some (hallId, day)"
    by (rule Calendar_click_None)
next
  assume h: "\<forall>l. g hid = Some l \<longrightarrow> (\<forall>a \<in> set l. date a \<noteq> day)"
  then show a: "HallList_availability g hid day = None"
    by (cases "g hid") (simp_all add: HallList_availability_def find_no_match)
  then show "HallList_status (HallList_availability g hid day) = Available"
    by (simp add: HallList_status_def opt_isBooked_def)
  from a show "\<not> HallList_disabled (HallList_availability g hid day)"
    by (simp add: HallList_disabled_def opt_isBooked_def)
  from a show "HallList_className (HallList_availability g hid day)
              = ''bg-green-100 hover:bg-green-200''"
    by (simp add: HallList_className_def opt_isBooked_def)
  from a show "HallList_click g hid day = Some (hid, day)"
    by (rule HallList_click_None)
qed

theorem date_without_record_is_available_witness:
  "Calendar_click 3 [\<lparr>date = ''2025-06-11'', reason = ''Wedding'', isBooked = True\<rparr>] ''2025-06-10''
     = Some (3, ''2025-06-10'')
   \<and> HallList_click [3 \<mapsto> [\<lparr>date = ''2025-06-11'', reason = ''Wedding'', isBooked = True\<rparr>]] 3 ''2025-06-10''
     = Some (3, ''2025-06-10'')
   \<and> HallList_click [3 \<mapsto> [\<lparr>date = ''2025-06-10'', reason = ''Wedding'', isBooked = True\<rparr>]] 4 ''2025-06-10''
     = Some (4, ''2025-06-10'')"
  using date_without_record_is_available
    [where availabilityData = "[\<lparr>date = ''2025-06-11'', reason = ''Wedding'', isBooked = True\<rparr>]"
       and day = "''2025-06-10''" and hallId = 3 and hid = 3
       and g = "[3 \<mapsto> [\<lparr>date = ''2025-06-11'', reason = ''Wedding'', isBooked = True\<rparr>]]"]
    date_without_record_is_available
    [where availabilityData = "[]" and day = "''2025-06-10''" and hallId = 4 and hid = 4
       and g = "[3 \<mapsto> [\<lparr>date = ''2025-06-10'', reason = ''Wedding'', isBooked = True\<rparr>]]"]
  by simp

text \<open>
  Claim C8, as the code has it. Two records that differ in their reason text only (the same
  date, the same booked flag), both booked or else both with the reason text
  \<^verbatim>\<open>On hold\<close> or both without it, give the same selectability on \<^verbatim>\<open>Calendar\<close>:
  the same \<^verbatim>\<open>disabled\<close>, the same \<^verbatim>\<open>onClick\<close>, and the same result of a click on
  any day when one replaces the other in the availability state. Of two records that are
  not booked, one with the reason text \<^verbatim>\<open>On hold\<close> and one without, exactly one is
  disabled on \<^verbatim>\<open>Calendar\<close>. On \<^verbatim>\<open>HallList\<close> the selectability is the same for any
  two reason texts.
\<close>

theorem reason_text_acts_only_through_on_hold:
  "(date a = date b \<and> isBooked a = isBooked b
      \<and> (isBooked a \<or> (reason a = ''On hold'') = (reason b = ''On hold'')) \<longrightarrow>
        Calendar_disabled (Some a) = Calendar_disabled (Some b)
        \<and> Calendar_onClick hallId (Some a) day = Calendar_onClick hallId (Some b) day
        \<and> Calendar_click hallId (pre @ a # post) day = Calendar_click hallId (pre @ b # post) day)
   \<and> (isBooked a = isBooked b \<and> \<not> isBooked a
      \<and> (reason a = ''On hold'') \<noteq> (reason b = ''On hold'') \<longrightarrow>
        Calendar_disabled (Some a) \<noteq> Calendar_disabled (Some b))
   \<and> (date a = date b \<and> isBooked a = isBooked b \<longrightarrow>
        HallList_disabled (Some a) = HallList_disabled (Some b)
        \<and> HallList_onClick hid (Some a) day = HallList_onClick hid (Some b) day
        \<and> HallList_click (g(hid \<mapsto> pre @ a # post)) hid' day
            = HallList_click (g(hid \<mapsto> pre @ b # post)) hid' day)"
proof (intro conjI)
  show "date a = date b \<and> isBooked a = isBooked b
      \<and> (isBooked a \<or> (reason a = ''On hold'') = (reason b = ''On hold'')) \<longrightarrow>
        Calendar_disabled (Some a) = Calendar_disabled (Some b)
        \<and> Calendar_onClick hallId (Some a) day = Calendar_onClick hallId (Some b) day
        \<and> Calendar_click hallId (pre @ a # post) day = Calendar_click hallId (pre @ b # post) day"
  proof (intro impI conjI; elim conjE)
    assume d: "date a = date b" and k: "isBooked a = isBooked b"
      and s: "isBooked a \<or> (reason a = ''On hold'') = (reason b = ''On hold'')"
    have f: "find (\<lambda>x. date x = day) (pre @ a # post) = find (\<lambda>x. date x = day) (pre @ b # post)
        \<or> find (\<lambda>x. date x = day) (pre @ a # post) = Some a
          \<and> find (\<lambda>x. date x = day) (pre @ b # post) = Some b"
      by (rule find_replace) (simp add: d)
    have h: "(isBooked a \<or> reason a = ''On hold'') = (isBooked b \<or> reason b = ''On hold'')"
      using s k by auto
    show "Calendar_disabled (Some a) = Calendar_disabled (Some b)"
      using h by (auto simp: Calendar_disabled_def opt_isBooked_def opt_reason_def)
    show "Calendar_onClick hallId (Some a) day = Calendar_onClick hallId (Some b) day"
      using h by (auto simp: Calendar_onClick_def opt_isBooked_def opt_reason_def)
    show "Calendar_click hallId (pre @ a # post) day = Calendar_click hallId (pre @ b # post) day"
      using f h
      by (auto simp: Calendar_click_def Calendar_disabled_def Calendar_onClick_def
          Calendar_availability_def opt_isBooked_def opt_reason_def)
  qed
  show "isBooked a = isBooked b \<and> \<not> isBooked a
      \<and> (reason a = ''On hold'') \<noteq> (reason b = ''On hold'') \<longrightarrow>
        Calendar_disabled (Some a) \<noteq> Calendar_disabled (Some b)"
    by (auto simp: Calendar_disabled_def opt_isBooked_def opt_reason_def)
  show "date a = date b \<and> isBooked a = isBooked b \<longrightarrow>
        HallList_disabled (Some a) = HallList_disabled (Some b)
        \<and> HallList_onClick hid (Some a) day = HallList_onClick hid (Some b) day
        \<and> HallList_click (g(hid \<mapsto> pre @ a # post)) hid' day
            = HallList_click (g(hid \<mapsto> pre @ b # post)) hid' day"
  proof (intro impI conjI; elim conjE)
    assume d: "date a = date b" and k: "isBooked a = isBooked b"
    have f: "find (\<lambda>x. date x = day) (pre @ a # post) = find (\<lambda>x. date x = day) (pre @ b # post)
        \<or> find (\<lambda>x. date x = day) (pre @ a # post) = Some a
          \<and> find (\<lambda>x. date x = day) (pre @ b # post) = Some b"
      by (rule find_replace) (simp add: d)
    show "HallList_disabled (Some a) = HallList_disabled (Some b)"
      by (simp add: HallList_disabled_def opt_isBooked_def k)
    show "HallList_onClick hid (Some a) day = HallList_onClick hid (Some b) day"
      by (simp add: HallList_onClick_def opt_isBooked_def k)
    show "HallList_click (g(hid \<mapsto> pre @ a # post)) hid' day
           = HallList_click (g(hid \<mapsto> pre @ b # post)) hid' day"
      using f
      by (auto simp: HallList_click_def HallList_disabled_def HallList_onClick_def
          HallList_availability_def opt_isBooked_def k)
  qed
qed

theorem reason_text_acts_only_through_on_hold_witness:
  "Calendar_click 3 [wedding_record] ''2025-06-10''
     = Calendar_click 3 [\<lparr>date = ''2025-06-10'', reason = ''Reception'', isBooked = False\<rparr>]
         ''2025-06-10''
   \<and> Calendar_click 3 [\<lparr>date = ''2025-06-10'', reason = ''Wedding'', isBooked = True\<rparr>]
         ''2025-06-10''
     = Calendar_click 3 [\<lparr>date = ''2025-06-10'', reason = ''On hold'', isBooked = True\<rparr>]
         ''2025-06-10''
   \<and> Calendar_disabled (Some wedding_record) \<noteq> Calendar_disabled (Some on_hold_record)
   \<and> HallList_click [3 \<mapsto> [wedding_record]] 3 ''2025-06-10''
     = HallList_click [3 \<mapsto> [on_hold_record]] 3 ''2025-06-10''"
proof -
  have r: "date on_hold_record = ''2025-06-10''" "reason on_hold_record = ''On hold''"
    "\<not> isBooked on_hold_record" "date wedding_record = ''2025-06-10''"
    "reason wedding_record = ''Wedding''" "\<not> isBooked wedding_record"
    by (simp_all add: on_hold_record_def wedding_record_def)
  from reason_text_acts_only_through_on_hold
    [where a = wedding_record
       and b = "\<lparr>date = ''2025-06-10'', reason = ''Reception'', isBooked = False\<rparr>"
       and pre = "[]" and post = "[]" and hallId = 3 and hid = 3 and hid' = 3
       and day = "''2025-06-10''" and g = Map.empty]
    reason_text_acts_only_through_on_hold
    [where a = "\<lparr>date = ''2025-06-10'', reason = ''Wedding'', isBooked = True\<rparr>"
       and b = "\<lparr>date = ''2025-06-10'', reason = ''On hold'', isBooked = True\<rparr>"
       and pre = "[]" and post = "[]" and hallId = 3 and hid = 3 and hid' = 3
       and day = "''2025-06-10''" and g = Map.empty]
    reason_text_acts_only_through_on_hold
    [where a = wedding_record and b = on_hold_record
       and pre = "[]" and post = "[]" and hallId = 3 and hid = 3 and hid' = 3
       and day = "''2025-06-10''" and g = Map.empty]
  show ?thesis by (simp add: r)
qed

text \<open>
  Claim C8 as written fails: two records of one date that are not booked and carry a
  reason, \<^verbatim>\<open>Wedding\<close> and \<^verbatim>\<open>On hold\<close>, denote the same state (OnHold, by section 6
  of the specification), yet on \<^verbatim>\<open>Calendar\<close> the first is selectable and the second is
  disabled.
\<close>

theorem on_hold_text_decides_selection_counterexample:
  "date wedding_record = date on_hold_record
   \<and> isBooked wedding_record = isBooked on_hold_record
   \<and> spec_DateStatus (Some wedding_record) = OnHold
   \<and> spec_DateStatus (Some on_hold_record) = OnHold
   \<and> Calendar_click 3 [wedding_record] ''2025-06-10'' = Some (3, ''2025-06-10'')
   \<and> Calendar_click 3 [on_hold_record] ''2025-06-10'' = None
   \<and> \<not> Calendar_disabled (Some wedding_record)
   \<and> Calendar_disabled (Some on_hold_record)"
  by (simp add: wedding_record_def on_hold_record_def spec_DateStatus_def Calendar_click_def
      Calendar_disabled_def Calendar_onClick_def Calendar_availability_def opt_isBooked_def
      opt_reason_def)

text \<open>
  Claim C10, as the code has it. Normalisation turns an absent or empty reason into the
  text \<^verbatim>\<open>Available\<close> and keeps the booked flag. A fetched item with \<open>is_booked\<close> true
  and no reason is shown with the label \<^verbatim>\<open>Available\<close> (in green), its button disabled
  and a click selecting nothing, when no earlier item of the response has the same hall and
  date: \<^verbatim>\<open>find\<close> takes the first record of a date.
\<close>

theorem empty_reason_is_labelled_Available:
  "(item_reason item = None \<or> item_reason item = Some [] \<longrightarrow>
      reason (toAvailabilityData item) = ''Available''
      \<and> isBooked (toAvailabilityData item) = is_booked item)
   \<and> ((item_reason item = None \<or> item_reason item = Some []) \<and> is_booked item
        \<and> (\<forall>j \<in> set pre. hall_id j = hall_id item \<longrightarrow>
              split_T_0 (item_date j) \<noteq> split_T_0 (item_date item)) \<longrightarrow>
      Calendar_label (Calendar_availability
          (Calendar_fetchAvailability (hall_id item) old (ok_response (pre @ item # post)))
          (split_T_0 (item_date item))) = Some (''Available'', ''text-green-600'')
      \<and> Calendar_disabled (Calendar_availability
          (Calendar_fetchAvailability (hall_id item) old (ok_response (pre @ item # post)))
          (split_T_0 (item_date item)))
      \<and> Calendar_click (hall_id item)
          (Calendar_fetchAvailability (hall_id item) old (ok_response (pre @ item # post)))
          (split_T_0 (item_date item)) = None
      \<and> HallList_label (HallList_availability
          (HallList_fetchAvailability g (ok_response (pre @ item # post))) (hall_id item)
          (split_T_0 (item_date item))) = Some (''Available'', ''text-green-600'')
      \<and> HallList_click (HallList_fetchAvailability g (ok_response (pre @ item # post)))
          (hall_id item) (split_T_0 (item_date item)) = None)"
proof (intro conjI impI; (elim conjE)?)
  assume e: "item_reason item = None \<or> item_reason item = Some []"
  then show r: "reason (toAvailabilityData item) = ''Available''"
    by (auto simp: toAvailabilityData_def reason_or_Available_def)
  show k: "isBooked (toAvailabilityData item) = is_booked item"
    by (simp add: toAvailabilityData_def)
  assume b: "is_booked item"
    and p: "\<forall>j \<in> set pre. hall_id j = hall_id item \<longrightarrow>
              split_T_0 (item_date j) \<noteq> split_T_0 (item_date item)"
  let ?day = "split_T_0 (item_date item)"
  let ?l = "map toAvailabilityData (filter (\<lambda>i. hall_id i = hall_id item) (pre @ item # post))"
  have l: "?l = map toAvailabilityData (filter (\<lambda>i. hall_id i = hall_id item) pre)
      @ toAvailabilityData item
      # map toAvailabilityData (filter (\<lambda>i. hall_id i = hall_id item) post)"
    by simp
  have "\<forall>x \<in> set (map toAvailabilityData (filter (\<lambda>i. hall_id i = hall_id item) pre)).
      \<not> date x = ?day"
    using p by (auto simp: toAvailabilityData_def)
  then have f: "find (\<lambda>d. date d = ?day) ?l = Some (toAvailabilityData item)"
    unfolding l by (rule find_first_match) (simp add: toAvailabilityData_def)
  have c: "Calendar_availability
      (Calendar_fetchAvailability (hall_id item) old (ok_response (pre @ item # post))) ?day
      = Some (toAvailabilityData item)"
    unfolding Calendar_fetch_ok Calendar_availability_def by (rule f)
  have h: "HallList_availability
      (HallList_fetchAvailability g (ok_response (pre @ item # post))) (hall_id item) ?day
      = Some (toAvailabilityData item)"
    unfolding HallList_availability_def HallList_fetch_ok using f by simp
  show "Calendar_label (Calendar_availability
          (Calendar_fetchAvailability (hall_id item) old (ok_response (pre @ item # post)))
          ?day) = Some (''Available'', ''text-green-600'')"
    by (simp add: c Calendar_label_def r getReasonColor_Available)
  show "Calendar_disabled (Calendar_availability
          (Calendar_fetchAvailability (hall_id item) old (ok_response (pre @ item # post)))
          ?day)"
    by (simp add: c Calendar_disabled_def opt_isBooked_def k b)
  show "Calendar_click (hall_id item)
          (Calendar_fetchAvailability (hall_id item) old (ok_response (pre @ item # post)))
          ?day = None"
    by (simp add: Calendar_click_Some [OF c] k b)
  show "HallList_label (HallList_availability
          (HallList_fetchAvailability g (ok_response (pre @ item # post))) (hall_id item)
          ?day) = Some (''Available'', ''text-green-600'')"
    by (simp add: h HallList_label_def r k b getReasonColor_Available)
  show "HallList_click (HallList_fetchAvailability g (ok_response (pre @ item # post)))
          (hall_id item) ?day = None"
    by (simp add: HallList_click_Some [OF h] k b)
qed

theorem empty_reason_is_labelled_Available_witness:
  "reason (toAvailabilityData booked_no_reason) = ''Available''
   \<and> Calendar_label (Calendar_availability
        (Calendar_fetchAvailability 3 [] (ok_response [booked_no_reason]))
        ''2025-06-10'') = Some (''Available'', ''text-green-600'')
   \<and> Calendar_disabled (Calendar_availability
        (Calendar_fetchAvailability 3 [] (ok_response [booked_no_reason])) ''2025-06-10'')
   \<and> Calendar_click 3 (Calendar_fetchAvailability 3 [] (ok_response [booked_no_reason]))
        ''2025-06-10'' = None
   \<and> HallList_label (HallList_availability
        (HallList_fetchAvailability Map.empty (ok_response [booked_no_reason])) 3
        ''2025-06-10'') = Some (''Available'', ''text-green-600'')"
proof -
  have d: "split_T_0 (item_date booked_no_reason) = ''2025-06-10''"
    "hall_id booked_no_reason = 3" "item_reason booked_no_reason = Some []"
    "is_booked booked_no_reason"
    by (simp_all add: booked_no_reason_def split_T_0_def)
  from empty_reason_is_labelled_Available
    [where item = booked_no_reason and pre = "[]" and post = "[]" and old = "[]"
       and g = Map.empty]
  show ?thesis by (simp add: d)
qed

text \<open>
  Claim C10 as written fails: the response holds, for hall 3 and 2025-06-10, a record that
  is not booked with the reason \<^verbatim>\<open>Wedding\<close> and after it a booked record with an empty
  reason. The day is labelled \<^verbatim>\<open>Wedding\<close>, the button is enabled and a click selects
  the day.
\<close>

theorem later_record_is_not_displayed_counterexample:
  "item_reason booked_no_reason = Some [] \<and> is_booked booked_no_reason
   \<and> hall_id booked_no_reason = 3
   \<and> split_T_0 (item_date booked_no_reason) = ''2025-06-10''
   \<and> Calendar_label (Calendar_availability
        (Calendar_fetchAvailability 3 [] (ok_response [wedding_not_booked, booked_no_reason]))
        ''2025-06-10'') = Some (''Wedding'', ''text-blue-600'')
   \<and> \<not> Calendar_disabled (Calendar_availability
        (Calendar_fetchAvailability 3 [] (ok_response [wedding_not_booked, booked_no_reason]))
        ''2025-06-10'')
   \<and> Calendar_click 3
        (Calendar_fetchAvailability 3 [] (ok_response [wedding_not_booked, booked_no_reason]))
        ''2025-06-10'' = Some (3, ''2025-06-10'')"
  by (simp add: Calendar_fetch_ok Calendar_availability_def Calendar_label_def
      Calendar_disabled_def Calendar_click_def Calendar_onClick_def opt_isBooked_def
      opt_reason_def wedding_not_booked_def booked_no_reason_def toAvailabilityData_def
      split_T_0_def reason_or_Available_def Calendar_getReasonColor_def)

subsection \<open>A failed fetch\<close>

text \<open>
  Claim C5, as the code has it. A fetch that fails (an exception, or a body whose
  \<open>statusCode\<close> is not 200) leaves the availability state as it was, on both surfaces.
  After a failed first fetch the state is the initial empty one, and every day is
  selectable.
\<close>

theorem failed_fetch_leaves_state_unchanged:
  "fetch_failed r \<longrightarrow>
     Calendar_fetchAvailability hallId availabilityData r = availabilityData
     \<and> HallList_fetchAvailability g r = g
     \<and> Calendar_click hallId (Calendar_fetchAvailability hallId Calendar_initialAvailability r) day
         = Some (hallId, day)
     \<and> HallList_click (HallList_fetchAvailability HallList_initialAvailability r) hid day
         = Some (hid, day)"
  by (cases r)
     (simp_all add: fetch_failed_def Calendar_fetchAvailability_def HallList_fetchAvailability_def
        Calendar_initialAvailability_def HallList_initialAvailability_def Calendar_click_None
        HallList_click_None Calendar_availability_def HallList_availability_def)

theorem failed_fetch_leaves_state_unchanged_witness:
  "fetch_failed server_error \<and> fetch_failed FetchThrows
   \<and> Calendar_fetchAvailability 3
        [\<lparr>date = ''2025-06-10'', reason = ''Wedding'', isBooked = True\<rparr>] server_error
       = [\<lparr>date = ''2025-06-10'', reason = ''Wedding'', isBooked = True\<rparr>]
   \<and> Calendar_fetchAvailability 3
        [\<lparr>date = ''2025-06-10'', reason = ''Wedding'', isBooked = True\<rparr>] FetchThrows
       = [\<lparr>date = ''2025-06-10'', reason = ''Wedding'', isBooked = True\<rparr>]"
proof -
  have f: "fetch_failed server_error" "fetch_failed FetchThrows"
    by (simp_all add: fetch_failed_def server_error_def)
  from failed_fetch_leaves_state_unchanged
    [where r = server_error and hallId = 3
       and availabilityData = "[\<lparr>date = ''2025-06-10'', reason = ''Wedding'', isBooked = True\<rparr>]"]
    failed_fetch_leaves_state_unchanged
    [where r = FetchThrows and hallId = 3
       and availabilityData = "[\<lparr>date = ''2025-06-10'', reason = ''Wedding'', isBooked = True\<rparr>]"]
  show ?thesis using f by simp
qed

text \<open>
  Claim C5 as written fails: 2025-06-10 of hall 3, which a successful fetch of a booked
  record shows as not selectable, is presented as Available (green and selectable) after a
  failed first fetch.
\<close>

theorem failed_first_fetch_counterexample:
  "fetch_failed server_error \<and> fetch_failed FetchThrows
   \<and> Calendar_click 3
        (Calendar_fetchAvailability 3 Calendar_initialAvailability (ok_response [booked_no_reason]))
        ''2025-06-10'' = None
   \<and> Calendar_className (Calendar_availability
        (Calendar_fetchAvailability 3 Calendar_initialAvailability FetchThrows) ''2025-06-10'')
       = ''bg-green-100 hover:bg-green-200''
   \<and> Calendar_click 3 (Calendar_fetchAvailability 3 Calendar_initialAvailability FetchThrows)
        ''2025-06-10'' = Some (3, ''2025-06-10'')
   \<and> HallList_className (HallList_availability
        (HallList_fetchAvailability HallList_initialAvailability server_error) 3 ''2025-06-10'')
       = ''bg-green-100 hover:bg-green-200''
   \<and> HallList_click (HallList_fetchAvailability HallList_initialAvailability server_error)
        3 ''2025-06-10'' = Some (3, ''2025-06-10'')"
  by (simp add: fetch_failed_def server_error_def Calendar_fetchAvailability_def
      HallList_fetchAvailability_def Calendar_initialAvailability_def
      HallList_initialAvailability_def Calendar_availability_def HallList_availability_def
      Calendar_className_def HallList_className_def Calendar_click_def HallList_click_def
      Calendar_disabled_def HallList_disabled_def Calendar_onClick_def HallList_onClick_def
      opt_isBooked_def opt_reason_def ok_response_def booked_no_reason_def toAvailabilityData_def
      reason_or_Available_def split_T_0_def)

subsection \<open>The cursor\<close>

text \<open>
  Claim C9. On both surfaces the month of every reachable cursor is between 0 and 11, and
  a call of \<^verbatim>\<open>handlePrevMonth\<close> or \<^verbatim>\<open>handleNextMonth\<close> leaves the cursor as it is or
  moves it by one month, the year changing exactly at the step from January back to
  December and from December on to January.
\<close>

theorem cursor_month_invariant:
  assumes "Calendar_reachable tz c \<or> HallList_reachable tz c"
  shows "month_in_range c
    \<and> (Calendar_handlePrevMonth tz now c = c \<or> one_month_back c (Calendar_handlePrevMonth tz now c))
    \<and> (Calendar_handleNextMonth tz now c = c \<or> one_month_forward c (Calendar_handleNextMonth tz now c))
    \<and> (HallList_handlePrevMonth tz now c = c \<or> one_month_back c (HallList_handlePrevMonth tz now c))
    \<and> (HallList_handleNextMonth tz now c = c \<or> one_month_forward c (HallList_handleNextMonth tz now c))"
proof -
  have r: "month_in_range c"
    using assms Calendar_reachable_range HallList_reachable_range by blast
  show ?thesis
    using r prev_policy_cases [OF r, of tz now] next_policy_cases [OF r, of 36 tz now]
      next_policy_cases [OF r, of 2 tz now]
    by (auto simp: Calendar_prev_policy Calendar_next_policy HallList_prev_policy
        HallList_next_policy)
qed

theorem cursor_month_invariant_witness:
  "Calendar_reachable 0 \<lparr>currentMonth = 11, currentYear = 2025\<rparr>
   \<and> month_in_range \<lparr>currentMonth = 11, currentYear = 2025\<rparr>
   \<and> Calendar_handlePrevMonth 0 1765800000000 \<lparr>currentMonth = 11, currentYear = 2025\<rparr>
       = \<lparr>currentMonth = 11, currentYear = 2025\<rparr>
   \<and> one_month_forward \<lparr>currentMonth = 11, currentYear = 2025\<rparr>
       (Calendar_handleNextMonth 0 1765800000000 \<lparr>currentMonth = 11, currentYear = 2025\<rparr>)
   \<and> Calendar_handleNextMonth 0 1765800000000 \<lparr>currentMonth = 11, currentYear = 2025\<rparr>
       = \<lparr>currentMonth = 0, currentYear = 2026\<rparr>"
proof -
  have i: "Calendar_initialCursor 0 1765800000000 = \<lparr>currentMonth = 11, currentYear = 2025\<rparr>"
    by (simp add: Calendar_initialCursor_def clock_2025_12_15)
  have r: "Calendar_reachable 0 \<lparr>currentMonth = 11, currentYear = 2025\<rparr>"
    using Calendar_reachable.Calendar_init [of 0 1765800000000] by (simp add: i)
  have n: "Calendar_handleNextMonth 0 1765800000000 \<lparr>currentMonth = 11, currentYear = 2025\<rparr>
       = \<lparr>currentMonth = 0, currentYear = 2026\<rparr>"
    by (simp add: Calendar_handleNextMonth_def Calendar_maxMonth_def Calendar_maxYear_def
        clock_2025_12_15)
  have p: "Calendar_handlePrevMonth 0 1765800000000 \<lparr>currentMonth = 11, currentYear = 2025\<rparr>
       = \<lparr>currentMonth = 11, currentYear = 2025\<rparr>"
    by (simp add: Calendar_handlePrevMonth_def clock_2025_12_15)
  from cursor_month_invariant [of 0 "\<lparr>currentMonth = 11, currentYear = 2025\<rparr>" 1765800000000] r
  show ?thesis by (simp add: n p)
qed




text \<open>
  Claim C7. The two surfaces compute the same day list, start from the same cursor and
  have the same \<^verbatim>\<open>handlePrevMonth\<close>; their \<^verbatim>\<open>handleNextMonth\<close> is one navigation
  policy with the horizon 36 on \<^verbatim>\<open>Calendar\<close> and 2 on \<^verbatim>\<open>HallList\<close>.
\<close>

theorem surfaces_share_window_policy:
  "Calendar_getDaysInMonth tz now month year = HallList_getDaysInMonth tz now month year
   \<and> Calendar_initialCursor tz now = HallList_initialCursor tz now
   \<and> Calendar_handlePrevMonth tz now c = HallList_handlePrevMonth tz now c
   \<and> Calendar_handlePrevMonth tz now c = prevMonth_policy tz now c
   \<and> Calendar_handleNextMonth tz now c = nextMonth_policy 36 tz now c
   \<and> HallList_handleNextMonth tz now c = nextMonth_policy 2 tz now c"
  by (simp add: Calendar_getDaysInMonth_def HallList_getDaysInMonth_def Calendar_initialCursor_def
      HallList_initialCursor_def Calendar_prev_policy HallList_prev_policy Calendar_next_policy
      HallList_next_policy)

subsection \<open>The dates offered\<close>

text \<open>
  Claim C3 (the dates offered are those from today through the last day of the horizon
  month) does not hold of the code. With the clock at 2025-01-15T12:00:00Z in the zone UTC
  the list of January 2025 starts at 2025-01-16 and today is in none of the three months of
  \<^verbatim>\<open>HallList\<close>; in the zone UTC+05:30 the last day of the horizon month, 2025-03-31, is
  in none of them.
\<close>

theorem today_and_last_day_not_offered:
  "Calendar_getDaysInMonth 0 1736942400000 0 2025 =
    [''2025-01-16'', ''2025-01-17'', ''2025-01-18'', ''2025-01-19'', ''2025-01-20'',
     ''2025-01-21'', ''2025-01-22'', ''2025-01-23'', ''2025-01-24'', ''2025-01-25'',
     ''2025-01-26'', ''2025-01-27'', ''2025-01-28'', ''2025-01-29'', ''2025-01-30'',
     ''2025-01-31'']
   \<and> HallList_handleNextMonth 0 1736942400000 \<lparr>currentMonth = 2, currentYear = 2025\<rparr>
       = \<lparr>currentMonth = 2, currentYear = 2025\<rparr>
   \<and> ''2025-01-15'' \<notin> set (HallList_offeredDates 0 1736942400000)
   \<and> ''2025-01-16'' \<in> set (HallList_offeredDates 0 1736942400000)
   \<and> ''2025-03-31'' \<in> set (HallList_offeredDates 0 1736942400000)
   \<and> ''2025-01-15'' \<in> set (HallList_offeredDates 330 1736942400000)
   \<and> ''2025-03-31'' \<notin> set (HallList_offeredDates 330 1736942400000)"
proof -
  have u: "HallList_offeredDates 0 1736942400000 =
      HallList_getDaysInMonth 0 1736942400000 0 2025
      @ HallList_getDaysInMonth 0 1736942400000 1 2025
      @ HallList_getDaysInMonth 0 1736942400000 2 2025"
    by (simp add: HallList_offeredDates_def HallList_months_utc)
  have i: "HallList_offeredDates 330 1736942400000 =
      HallList_getDaysInMonth 330 1736942400000 0 2025
      @ HallList_getDaysInMonth 330 1736942400000 1 2025
      @ HallList_getDaysInMonth 330 1736942400000 2 2025"
    by (simp add: HallList_offeredDates_def HallList_months_ist)
  have "''2025-01-15'' \<notin> set (HallList_offeredDates 0 1736942400000)"
    unfolding u HallList_utc_jan HallList_utc_feb HallList_utc_mar by simp
  moreover have "''2025-01-16'' \<in> set (HallList_offeredDates 0 1736942400000)"
    unfolding u HallList_utc_jan by simp
  moreover have "''2025-03-31'' \<in> set (HallList_offeredDates 0 1736942400000)"
    unfolding u HallList_utc_mar by simp
  moreover have "''2025-01-15'' \<in> set (HallList_offeredDates 330 1736942400000)"
    unfolding i HallList_ist_jan by simp
  moreover have "''2025-03-31'' \<notin> set (HallList_offeredDates 330 1736942400000)"
    unfolding i HallList_ist_jan HallList_ist_feb HallList_ist_mar by simp
  moreover have "HallList_handleNextMonth 0 1736942400000 \<lparr>currentMonth = 2, currentYear = 2025\<rparr>
       = \<lparr>currentMonth = 2, currentYear = 2025\<rparr>"
    by (simp add: HallList_handleNextMonth_def HallList_maxMonth_def HallList_maxYear_def
        clock_2025_01_15)
  ultimately show ?thesis
    using Calendar_utc_jan by simp
qed

end
